theory Spec2Isabelle
  imports Main "HOL-Library.AList" "HOL-Library.Word"
begin

section \<open>The real-time room coordinator of \<open>backend/src/socket/index.ts\<close>\<close>

text \<open>
  The socket server keeps one module-level registry \<open>roomParticipants\<close>, reads and writes the
  persisted store through Prisma, and talks to its clients through socket.io. Each handler
  is embedded as a function from the world before the command to the world after it; the
  world holds the registry, the store, the connected sockets with their broadcast groups,
  and the log of everything emitted. A handler is taken as one uninterrupted step: each
  handler reads and writes the registry in one synchronous stretch, after its last call to
  the store.
\<close>

subsection \<open>Identifiers and JavaScript strings\<close>

text \<open>
  An id is the string a client or the store supplies, held as its bytes; the character
  U+0000 is the byte \<open>0x00\<close>.
\<close>

type_synonym user_id = string
type_synonym room_id = string
type_synonym socket_id = string
type_synonym timestamp = nat

text \<open>
  A chat text is a JavaScript string, a sequence of UTF-16 code units.
  \<open>String.prototype.trim\<close> strips the code units of ECMAScript's WhiteSpace and
  LineTerminator productions from both ends.
\<close>

type_synonym jsstring = "16 word list"

definition js_whitespace :: "16 word \<Rightarrow> bool" where
  "js_whitespace c \<longleftrightarrow>
     c \<in> set [0x0009, 0x000A, 0x000B, 0x000C, 0x000D, 0x0020, 0x00A0, 0x1680,
              0x2000, 0x2001, 0x2002, 0x2003, 0x2004, 0x2005, 0x2006, 0x2007,
              0x2008, 0x2009, 0x200A, 0x2028, 0x2029, 0x202F, 0x205F, 0x3000, 0xFEFF]"

definition trim :: "jsstring \<Rightarrow> jsstring" where
  "trim s = rev (dropWhile js_whitespace (rev (dropWhile js_whitespace s)))"

subsection \<open>JavaScript \<open>Map\<close>\<close>

text \<open>
  A \<open>Map\<close> is an association list in insertion order. \<open>set\<close> overwrites the value of a
  key that is present, in place, and appends a new key at the end; \<open>delete\<close> removes the
  key; \<open>values()\<close> and \<open>forEach\<close> run in insertion order. A \<open>Map\<close> never holds a key twice.
\<close>

abbreviation Map_get :: "'k \<Rightarrow> ('k \<times> 'v) list \<Rightarrow> 'v option" where
  "Map_get k m \<equiv> map_of m k"

abbreviation Map_has :: "'k \<Rightarrow> ('k \<times> 'v) list \<Rightarrow> bool" where
  "Map_has k m \<equiv> map_of m k \<noteq> None"

abbreviation Map_set :: "'k \<Rightarrow> 'v \<Rightarrow> ('k \<times> 'v) list \<Rightarrow> ('k \<times> 'v) list" where
  "Map_set k v m \<equiv> AList.update k v m"

abbreviation Map_delete :: "'k \<Rightarrow> ('k \<times> 'v) list \<Rightarrow> ('k \<times> 'v) list" where
  "Map_delete k m \<equiv> AList.delete k m"

abbreviation Map_size :: "('k \<times> 'v) list \<Rightarrow> nat" where
  "Map_size m \<equiv> length m"

abbreviation Map_values :: "('k \<times> 'v) list \<Rightarrow> 'v list" where
  "Map_values m \<equiv> map snd m"

abbreviation Map_keys :: "('k \<times> 'v) list \<Rightarrow> 'k list" where
  "Map_keys m \<equiv> map fst m"

subsection \<open>The presence registry\<close>

datatype role = HOST | GUEST

record RoomParticipant =
  odId :: user_id
  odName :: string
  odIsMuted :: bool
  odIsVideoOff :: bool
  odRole :: role

type_synonym participants_map = "(user_id \<times> RoomParticipant) list"
type_synonym registry = "(room_id \<times> participants_map) list"

definition wf_registry :: "registry \<Rightarrow> bool" where
  "wf_registry reg \<longleftrightarrow>
     distinct (Map_keys reg) \<and> list_all (\<lambda>e. distinct (Map_keys (snd e))) reg"

text \<open>The entry of a user in a room, if the room is a key and the user is a key of its map.\<close>

definition presence :: "registry \<Rightarrow> room_id \<Rightarrow> user_id \<Rightarrow> RoomParticipant option" where
  "presence reg roomId uid =
     (case Map_get roomId reg of None \<Rightarrow> None | Some ps \<Rightarrow> Map_get uid ps)"

text \<open>The invariant of the registry: no key maps to an empty collection.\<close>

definition no_empty_room :: "registry \<Rightarrow> bool" where
  "no_empty_room reg \<longleftrightarrow> list_all (\<lambda>e. snd e \<noteq> []) reg"

subsection \<open>The persisted store\<close>

text \<open>
  The tables of the two migrations, with the columns the socket handlers read or write.
  \<open>Participant\<close> and \<open>WaitingRoom\<close> each carry a unique index on \<open>(userId, roomId)\<close>.

  A Prisma call either answers or throws. The ids are \<open>TEXT\<close> columns, and the database
  refuses a query parameter that holds the character U+0000: a call made with such an id
  throws whatever the tables hold. \<open>findUnique\<close> and \<open>updateMany\<close> throw in no other case;
  a missing row is the answer \<open>null\<close>, or an update of no row. \<open>update\<close> throws when no row
  matches its unique \<open>where\<close>, \<open>create\<close> throws when the new row would break a unique
  index; for these two a throw is the value \<open>None\<close>. No row of a table holds a refused id,
  so \<open>update\<close> called with one finds no row and throws for that reason already, and
  \<open>create\<close> is only reached with the ids of a row that \<open>update\<close> has found.
  The user id of a socket is not checked again either: the authentication middleware has
  looked it up in the store before the connection was accepted. The foreign keys to \<open>User\<close>
  are not modelled: a waiting-room row already guarantees that its user exists. A database
  that cannot be reached at all is outside the model.
\<close>

datatype prisma_error = PrismaClientError

definition store_rejects :: "string \<Rightarrow> bool" where
  "store_rejects x \<longleftrightarrow> CHR 0x00 \<in> set x"

datatype waiting_status = PENDING | APPROVED | REJECTED

record room_row =
  r_id :: room_id
  r_code :: string
  r_title :: string
  r_isActive :: bool
  r_hostId :: user_id
  r_videoEnabled :: bool
  r_audioOnly :: bool
  r_maxParticipants :: int
  r_waitingRoom :: bool

record participant_row =
  p_userId :: user_id
  p_roomId :: room_id
  p_role :: role
  p_leftAt :: "timestamp option"

record waiting_row =
  w_userId :: user_id
  w_roomId :: room_id
  w_status :: waiting_status

record store =
  rooms :: "room_row list"
  participants :: "participant_row list"
  waitingRoom :: "waiting_row list"

definition prisma_room_findUnique :: "store \<Rightarrow> room_id \<Rightarrow> prisma_error + room_row option" where
  "prisma_room_findUnique db roomId =
     (if store_rejects roomId then Inl PrismaClientError
      else Inr (find (\<lambda>r. r_id r = roomId) (rooms db)))"

text \<open>
  The relation loaded by \<open>include: { participants: { where: { userId, leftAt: null } } }\<close>.
\<close>

definition room_participants_of :: "store \<Rightarrow> room_id \<Rightarrow> user_id \<Rightarrow> participant_row list" where
  "room_participants_of db roomId uid =
     filter (\<lambda>p. p_roomId p = roomId \<and> p_userId p = uid \<and> p_leftAt p = None) (participants db)"

definition prisma_participant_updateMany ::
    "store \<Rightarrow> room_id \<Rightarrow> user_id \<Rightarrow> timestamp \<Rightarrow> prisma_error + store" where
  "prisma_participant_updateMany db roomId uid now =
     (if store_rejects roomId \<or> store_rejects uid then Inl PrismaClientError
      else Inr (db\<lparr>participants :=
                   map (\<lambda>p. if p_roomId p = roomId \<and> p_userId p = uid \<and> p_leftAt p = None
                            then p\<lparr>p_leftAt := Some now\<rparr> else p) (participants db)\<rparr>))"

definition prisma_waitingRoom_update ::
    "store \<Rightarrow> user_id \<Rightarrow> room_id \<Rightarrow> waiting_status \<Rightarrow> store option" where
  "prisma_waitingRoom_update db uid roomId st =
     (if list_ex (\<lambda>r. w_userId r = uid \<and> w_roomId r = roomId) (waitingRoom db)
      then Some (db\<lparr>waitingRoom :=
                      map (\<lambda>r. if w_userId r = uid \<and> w_roomId r = roomId
                               then r\<lparr>w_status := st\<rparr> else r) (waitingRoom db)\<rparr>)
      else None)"

definition prisma_participant_create ::
    "store \<Rightarrow> user_id \<Rightarrow> room_id \<Rightarrow> role \<Rightarrow> store option" where
  "prisma_participant_create db uid roomId rl =
     (if list_ex (\<lambda>p. p_userId p = uid \<and> p_roomId p = roomId) (participants db)
      then None
      else Some (db\<lparr>participants := participants db @
                      [\<lparr>p_userId = uid, p_roomId = roomId, p_role = rl, p_leftAt = None\<rparr>]\<rparr>))"

subsection \<open>Sockets, broadcast groups and emitted events\<close>

record authsocket =
  sid :: socket_id
  userId :: user_id
  userName :: string

datatype event =
    Error string
  | RoomJoined room_id string string "RoomParticipant list" bool bool int
  | ParticipantJoined user_id string role
  | ParticipantLeft user_id string
  | ChatMessage string user_id string jsstring string
  | ParticipantAudioChanged user_id bool
  | ParticipantVideoChanged user_id bool
  | ParticipantMutedByHost user_id string
  | ParticipantRemovedByHost user_id string
  | YouWereRemoved room_id string
  | WaitingRoomApproved user_id

text \<open>
  An emission records how the event was addressed, which connections it was delivered to
  (the members of the group at that moment), and the event. \<open>ToSocket\<close> is
  \<open>socket.emit\<close>, \<open>ToOthers\<close> is \<open>socket.to(room).emit\<close> (the group without the sender),
  \<open>ToRoom\<close> is \<open>io.to(room).emit\<close> (the whole group).
\<close>

datatype target = ToSocket socket_id | ToOthers room_id socket_id | ToRoom room_id

type_synonym emission = "target \<times> socket_id list \<times> event"

record world =
  roomParticipants :: registry
  prisma :: store
  conns :: "authsocket list"
  adapter :: "(socket_id \<times> room_id) list"
  outbox :: "emission list"

text \<open>
  The adapter is socket.io's membership relation between connections and groups, each
  group in the order in which its connections joined it. A connection is put into a
  private group named by its own id when it connects, so the adapter holds the pair of the
  id with itself for every connection that has not left that group.
\<close>

definition members :: "room_id \<Rightarrow> world \<Rightarrow> socket_id list" where
  "members roomId w = map fst (filter (\<lambda>p. snd p = roomId) (adapter w))"

definition socket_join :: "authsocket \<Rightarrow> room_id \<Rightarrow> world \<Rightarrow> world" where
  "socket_join s roomId w =
     (if (sid s, roomId) \<in> set (adapter w) then w
      else w\<lparr>adapter := adapter w @ [(sid s, roomId)]\<rparr>)"

definition socket_leave :: "authsocket \<Rightarrow> room_id \<Rightarrow> world \<Rightarrow> world" where
  "socket_leave s roomId w = w\<lparr>adapter := filter (\<lambda>p. p \<noteq> (sid s, roomId)) (adapter w)\<rparr>"

definition socket_emit :: "authsocket \<Rightarrow> event \<Rightarrow> world \<Rightarrow> world" where
  "socket_emit s ev w = w\<lparr>outbox := outbox w @ [(ToSocket (sid s), [sid s], ev)]\<rparr>"

definition socket_to_emit :: "authsocket \<Rightarrow> room_id \<Rightarrow> event \<Rightarrow> world \<Rightarrow> world" where
  "socket_to_emit s roomId ev w =
     w\<lparr>outbox := outbox w @
          [(ToOthers roomId (sid s), filter (\<lambda>x. x \<noteq> sid s) (members roomId w), ev)]\<rparr>"

definition io_to_emit :: "room_id \<Rightarrow> event \<Rightarrow> world \<Rightarrow> world" where
  "io_to_emit roomId ev w = w\<lparr>outbox := outbox w @ [(ToRoom roomId, members roomId w, ev)]\<rparr>"

definition set_registry :: "registry \<Rightarrow> world \<Rightarrow> world" where
  "set_registry reg w = w\<lparr>roomParticipants := reg\<rparr>"

subsection \<open>join-room\<close>

text \<open>
  A lookup that throws lands in the handler's \<open>catch\<close>. The three checks then run in the
  order of the source and each one returns after its error.
  \<open>roomParticipants.get(roomId)!\<close> on a missing key would throw into the \<open>catch\<close> as well;
  that branch is kept, although the \<open>set\<close> just before makes it unreachable.
\<close>

definition join_room :: "authsocket \<Rightarrow> room_id \<Rightarrow> world \<Rightarrow> world" where
  "join_room s roomId w =
     (case prisma_room_findUnique (prisma w) roomId of
        Inl _ \<Rightarrow> socket_emit s (Error ''Failed to join room'') w
      | Inr None \<Rightarrow> socket_emit s (Error ''Room not found'') w
      | Inr (Some room) \<Rightarrow>
          if \<not> r_isActive room then socket_emit s (Error ''Room is not active'') w
          else
            (case room_participants_of (prisma w) roomId (userId s) of
               [] \<Rightarrow> socket_emit s (Error ''You are not a participant in this room'') w
             | participant # _ \<Rightarrow>
                 let w1 = socket_join s roomId w;
                     reg1 = (if \<not> Map_has roomId (roomParticipants w1)
                             then Map_set roomId [] (roomParticipants w1)
                             else roomParticipants w1);
                     participantData = \<lparr>odId = userId s, odName = userName s,
                                        odIsMuted = False,
                                        odIsVideoOff = (\<not> r_videoEnabled room),
                                        odRole = p_role participant\<rparr>
                 in (case Map_get roomId reg1 of
                       None \<Rightarrow> socket_emit s (Error ''Failed to join room'') (set_registry reg1 w1)
                     | Some ps \<Rightarrow>
                         let ps' = Map_set (userId s) participantData ps;
                             w2 = set_registry (Map_set roomId ps' reg1) w1;
                             w3 = socket_emit s
                                    (RoomJoined roomId (r_code room) (r_title room) (Map_values ps')
                                       (r_videoEnabled room) (r_audioOnly room)
                                       (r_maxParticipants room)) w2
                         in socket_to_emit s roomId
                              (ParticipantJoined (userId s) (userName s) (p_role participant)) w3)))"

subsection \<open>leave-room\<close>

definition leave_room :: "authsocket \<Rightarrow> room_id \<Rightarrow> world \<Rightarrow> world" where
  "leave_room s roomId w =
     (let w1 = socket_leave s roomId w;
          reg = roomParticipants w1;
          reg' = (case Map_get roomId reg of
                    None \<Rightarrow> reg
                  | Some ps \<Rightarrow>
                      let ps' = Map_delete (userId s) ps;
                          reg1 = Map_set roomId ps' reg
                      in if Map_size ps' = 0 then Map_delete roomId reg1 else reg1);
          w2 = set_registry reg' w1
      in socket_to_emit s roomId (ParticipantLeft (userId s) (userName s)) w2)"

subsection \<open>chat-message\<close>

text \<open>
  The id built from \<open>Date.now()\<close> and \<open>Math.random()\<close> and the ISO timestamp are inputs
  of the model.
\<close>

definition chat_message ::
    "authsocket \<Rightarrow> room_id \<Rightarrow> jsstring \<Rightarrow> string \<Rightarrow> string \<Rightarrow> world \<Rightarrow> world" where
  "chat_message s roomId message msgId isoTime w =
     (if message = [] \<or> length (trim message) = 0 then w
      else
        (case Map_get roomId (roomParticipants w) of
           None \<Rightarrow> socket_emit s (Error ''You are not in this room'') w
         | Some ps \<Rightarrow>
             if \<not> Map_has (userId s) ps
             then socket_emit s (Error ''You are not in this room'') w
             else io_to_emit roomId
                    (ChatMessage msgId (userId s) (userName s) (trim message) isoTime) w))"

subsection \<open>toggle-audio and toggle-video\<close>

definition toggle_audio :: "authsocket \<Rightarrow> room_id \<Rightarrow> bool \<Rightarrow> world \<Rightarrow> world" where
  "toggle_audio s roomId isMuted w =
     (case Map_get roomId (roomParticipants w) of
        None \<Rightarrow> w
      | Some ps \<Rightarrow>
          (case Map_get (userId s) ps of
             None \<Rightarrow> w
           | Some participant \<Rightarrow>
               let ps' = Map_set (userId s) (participant\<lparr>odIsMuted := isMuted\<rparr>) ps;
                   w1 = set_registry (Map_set roomId ps' (roomParticipants w)) w
               in socket_to_emit s roomId (ParticipantAudioChanged (userId s) isMuted) w1))"

definition toggle_video :: "authsocket \<Rightarrow> room_id \<Rightarrow> bool \<Rightarrow> world \<Rightarrow> world" where
  "toggle_video s roomId isVideoOff w =
     (case Map_get roomId (roomParticipants w) of
        None \<Rightarrow> w
      | Some ps \<Rightarrow>
          (case Map_get (userId s) ps of
             None \<Rightarrow> w
           | Some participant \<Rightarrow>
               let ps' = Map_set (userId s) (participant\<lparr>odIsVideoOff := isVideoOff\<rparr>) ps;
                   w1 = set_registry (Map_set roomId ps' (roomParticipants w)) w
               in socket_to_emit s roomId (ParticipantVideoChanged (userId s) isVideoOff) w1))"

subsection \<open>Host controls\<close>

definition host_mute_participant :: "authsocket \<Rightarrow> room_id \<Rightarrow> user_id \<Rightarrow> world \<Rightarrow> world" where
  "host_mute_participant s roomId targetUserId w =
     (case prisma_room_findUnique (prisma w) roomId of
        Inl _ \<Rightarrow> socket_emit s (Error ''Failed to mute participant'') w
      | Inr None \<Rightarrow> socket_emit s (Error ''Only the host can mute participants'') w
      | Inr (Some room) \<Rightarrow>
          if r_hostId room \<noteq> userId s
          then socket_emit s (Error ''Only the host can mute participants'') w
          else
            let reg = roomParticipants w;
                reg' = (case Map_get roomId reg of
                          None \<Rightarrow> reg
                        | Some ps \<Rightarrow>
                            (case Map_get targetUserId ps of
                               None \<Rightarrow> reg
                             | Some participant \<Rightarrow>
                                 Map_set roomId
                                   (Map_set targetUserId (participant\<lparr>odIsMuted := True\<rparr>) ps) reg));
                w1 = set_registry reg' w
            in io_to_emit roomId (ParticipantMutedByHost targetUserId (userName s)) w1)"

text \<open>
  The loop over \<open>fetchSockets()\<close>: every connection of the group that belongs to the
  removed user leaves the group and is told so.
\<close>

fun evict_sockets :: "authsocket \<Rightarrow> room_id \<Rightarrow> user_id \<Rightarrow> authsocket list \<Rightarrow> world \<Rightarrow> world" where
  "evict_sockets s roomId targetUserId [] w = w"
| "evict_sockets s roomId targetUserId (c # cs) w =
     evict_sockets s roomId targetUserId cs
       (if userId c = targetUserId
        then socket_emit c (YouWereRemoved roomId (userName s)) (socket_leave c roomId w)
        else w)"

text \<open>
  \<open>io.in(roomId).fetchSockets()\<close> yields the connections of the group in the order in
  which they joined it.
\<close>

definition fetchSockets :: "room_id \<Rightarrow> world \<Rightarrow> authsocket list" where
  "fetchSockets roomId w =
     List.map_filter (\<lambda>i. find (\<lambda>c. sid c = i) (conns w)) (members roomId w)"

definition host_remove_participant ::
    "authsocket \<Rightarrow> room_id \<Rightarrow> user_id \<Rightarrow> timestamp \<Rightarrow> world \<Rightarrow> world" where
  "host_remove_participant s roomId targetUserId now w =
     (case prisma_room_findUnique (prisma w) roomId of
        Inl _ \<Rightarrow> socket_emit s (Error ''Failed to remove participant'') w
      | Inr None \<Rightarrow> socket_emit s (Error ''Only the host can remove participants'') w
      | Inr (Some room) \<Rightarrow>
          if r_hostId room \<noteq> userId s
          then socket_emit s (Error ''Only the host can remove participants'') w
          else if targetUserId = userId s
          then socket_emit s (Error ''Host cannot remove themselves'') w
          else
            (case prisma_participant_updateMany (prisma w) roomId targetUserId now of
               Inl _ \<Rightarrow> socket_emit s (Error ''Failed to remove participant'') w
             | Inr db1 \<Rightarrow>
                 let w1 = w\<lparr>prisma := db1\<rparr>;
                     reg = roomParticipants w1;
                     reg' = (case Map_get roomId reg of
                               None \<Rightarrow> reg
                             | Some ps \<Rightarrow> Map_set roomId (Map_delete targetUserId ps) reg);
                     w2 = set_registry reg' w1;
                     w3 = io_to_emit roomId (ParticipantRemovedByHost targetUserId (userName s)) w2
                 in evict_sockets s roomId targetUserId (fetchSockets roomId w3) w3))"

text \<open>
  The two writes are not in a transaction: when \<open>create\<close> throws, the waiting-room row
  stays approved.
\<close>

definition approve_waiting_participant ::
    "authsocket \<Rightarrow> room_id \<Rightarrow> user_id \<Rightarrow> world \<Rightarrow> world" where
  "approve_waiting_participant s roomId uid w =
     (case prisma_room_findUnique (prisma w) roomId of
        Inl _ \<Rightarrow> socket_emit s (Error ''Failed to approve participant'') w
      | Inr None \<Rightarrow> socket_emit s (Error ''Only the host can approve participants'') w
      | Inr (Some room) \<Rightarrow>
          if r_hostId room \<noteq> userId s
          then socket_emit s (Error ''Only the host can approve participants'') w
          else
            (case prisma_waitingRoom_update (prisma w) uid roomId APPROVED of
               None \<Rightarrow> socket_emit s (Error ''Failed to approve participant'') w
             | Some db1 \<Rightarrow>
                 (case prisma_participant_create db1 uid roomId GUEST of
                    None \<Rightarrow> socket_emit s (Error ''Failed to approve participant'')
                              (w\<lparr>prisma := db1\<rparr>)
                  | Some db2 \<Rightarrow>
                      io_to_emit roomId (WaitingRoomApproved uid) (w\<lparr>prisma := db2\<rparr>))))"

subsection \<open>disconnect\<close>

text \<open>
  One turn of the callback given to \<open>roomParticipants.forEach\<close>, for the key \<open>roomId\<close>;
  \<open>participants\<close> is the collection stored under that key.
\<close>

definition disconnect_room :: "authsocket \<Rightarrow> room_id \<Rightarrow> world \<Rightarrow> world" where
  "disconnect_room s roomId w =
     (case Map_get roomId (roomParticipants w) of
        None \<Rightarrow> w
      | Some ps \<Rightarrow>
          if Map_has (userId s) ps then
            let ps' = Map_delete (userId s) ps;
                w1 = set_registry (Map_set roomId ps' (roomParticipants w)) w;
                w2 = socket_to_emit s roomId (ParticipantLeft (userId s) (userName s)) w1
            in if Map_size ps' = 0
               then set_registry (Map_delete roomId (roomParticipants w2)) w2
               else w2
          else w)"

text \<open>
  \<open>forEach\<close> visits the keys in insertion order. A turn only changes or deletes its own
  key, so the keys still to visit are those of the registry at the start.
\<close>

fun disconnect_each :: "authsocket \<Rightarrow> room_id list \<Rightarrow> world \<Rightarrow> world" where
  "disconnect_each s [] w = w"
| "disconnect_each s (roomId # roomIds) w = disconnect_each s roomIds (disconnect_room s roomId w)"

text \<open>
  socket.io takes the connection out of every group and out of the server's list before
  the \<open>disconnect\<close> listeners run.
\<close>

definition disconnect :: "authsocket \<Rightarrow> world \<Rightarrow> world" where
  "disconnect s w =
     (let w0 = w\<lparr>conns := filter (\<lambda>c. sid c \<noteq> sid s) (conns w),
                  adapter := filter (\<lambda>p. fst p \<noteq> sid s) (adapter w)\<rparr>
      in disconnect_each s (Map_keys (roomParticipants w0)) w0)"

subsection \<open>Commands and runs\<close>

datatype command =
    JoinRoom room_id
  | LeaveRoom room_id
  | ChatMessageCmd room_id jsstring string string
  | ToggleAudio room_id bool
  | ToggleVideo room_id bool
  | HostMuteParticipant room_id user_id
  | HostRemoveParticipant room_id user_id timestamp
  | ApproveWaitingParticipant room_id user_id
  | Disconnect

fun handle :: "authsocket \<Rightarrow> command \<Rightarrow> world \<Rightarrow> world" where
  "handle s (JoinRoom roomId) w = join_room s roomId w"
| "handle s (LeaveRoom roomId) w = leave_room s roomId w"
| "handle s (ChatMessageCmd roomId message msgId isoTime) w = chat_message s roomId message msgId isoTime w"
| "handle s (ToggleAudio roomId isMuted) w = toggle_audio s roomId isMuted w"
| "handle s (ToggleVideo roomId isVideoOff) w = toggle_video s roomId isVideoOff w"
| "handle s (HostMuteParticipant roomId targetUserId) w = host_mute_participant s roomId targetUserId w"
| "handle s (HostRemoveParticipant roomId targetUserId now) w =
     host_remove_participant s roomId targetUserId now w"
| "handle s (ApproveWaitingParticipant roomId uid) w = approve_waiting_participant s roomId uid w"
| "handle s Disconnect w = disconnect s w"

fun run :: "(authsocket \<times> command) list \<Rightarrow> world \<Rightarrow> world" where
  "run [] w = w"
| "run ((s, c) # cs) w = run cs (handle s c w)"

subsection \<open>A small deployment\<close>

text \<open>
  Three rooms hosted by \<open>H\<close>: \<open>R\<close> with video, \<open>Q\<close> without video, and the ended room
  \<open>Z\<close>. \<open>G\<close> is a guest of record in \<open>R\<close> and \<open>Q\<close>, \<open>X\<close> has left \<open>R\<close>, \<open>P\<close> and \<open>X\<close> wait to
  be let into \<open>R\<close>, and \<open>S\<close> is known to no room.
\<close>

definition room_R :: room_row where
  "room_R = \<lparr>r_id = ''R'', r_code = ''abc-def-ghi'', r_title = ''Standup'', r_isActive = True,
             r_hostId = ''H'', r_videoEnabled = True, r_audioOnly = False,
             r_maxParticipants = 10, r_waitingRoom = True\<rparr>"

definition room_Q :: room_row where
  "room_Q = \<lparr>r_id = ''Q'', r_code = ''jkl-mno-pqr'', r_title = ''Podcast'', r_isActive = True,
             r_hostId = ''H'', r_videoEnabled = False, r_audioOnly = True,
             r_maxParticipants = 4, r_waitingRoom = False\<rparr>"

definition room_Z :: room_row where
  "room_Z = \<lparr>r_id = ''Z'', r_code = ''stu-vwx-yz0'', r_title = ''Ended'', r_isActive = False,
             r_hostId = ''H'', r_videoEnabled = True, r_audioOnly = False,
             r_maxParticipants = 10, r_waitingRoom = False\<rparr>"

definition store0 :: store where
  "store0 = \<lparr>rooms = [room_R, room_Q, room_Z],
             participants =
               [\<lparr>p_userId = ''H'', p_roomId = ''R'', p_role = HOST, p_leftAt = None\<rparr>,
                \<lparr>p_userId = ''G'', p_roomId = ''R'', p_role = GUEST, p_leftAt = None\<rparr>,
                \<lparr>p_userId = ''H'', p_roomId = ''Q'', p_role = HOST, p_leftAt = None\<rparr>,
                \<lparr>p_userId = ''G'', p_roomId = ''Q'', p_role = GUEST, p_leftAt = None\<rparr>,
                \<lparr>p_userId = ''X'', p_roomId = ''R'', p_role = GUEST, p_leftAt = Some 3\<rparr>],
             waitingRoom =
               [\<lparr>w_userId = ''P'', w_roomId = ''R'', w_status = PENDING\<rparr>,
                \<lparr>w_userId = ''X'', w_roomId = ''R'', w_status = PENDING\<rparr>]\<rparr>"

definition host_sock :: authsocket where
  "host_sock = \<lparr>sid = ''c1'', userId = ''H'', userName = ''Hana''\<rparr>"

definition guest_sock :: authsocket where
  "guest_sock = \<lparr>sid = ''c2'', userId = ''G'', userName = ''Gil''\<rparr>"

definition stranger_sock :: authsocket where
  "stranger_sock = \<lparr>sid = ''c3'', userId = ''S'', userName = ''Sam''\<rparr>"

definition world0 :: world where
  "world0 = \<lparr>roomParticipants = [], prisma = store0,
             conns = [host_sock, guest_sock, stranger_sock],
             adapter = [(''c1'', ''c1''), (''c2'', ''c2''), (''c3'', ''c3'')], outbox = []\<rparr>"

definition world_live :: world where
  "world_live =
     \<lparr>roomParticipants =
        [(''R'', [(''H'', \<lparr>odId = ''H'', odName = ''Hana'', odIsMuted = False,
                            odIsVideoOff = False, odRole = HOST\<rparr>),
                  (''G'', \<lparr>odId = ''G'', odName = ''Gil'', odIsMuted = True,
                            odIsVideoOff = False, odRole = GUEST\<rparr>)]),
         (''Q'', [(''G'', \<lparr>odId = ''G'', odName = ''Gil'', odIsMuted = False,
                            odIsVideoOff = True, odRole = GUEST\<rparr>)])],
      prisma = store0,
      conns = [host_sock, guest_sock, stranger_sock],
      adapter = [(''c1'', ''c1''), (''c2'', ''c2''), (''c3'', ''c3''),
                 (''c1'', ''R''), (''c2'', ''R''), (''c2'', ''Q'')],
      outbox = []\<rparr>"

section \<open>Auxiliary facts\<close>

lemmas emit_defs = socket_emit_def socket_to_emit_def io_to_emit_def set_registry_def
  socket_join_def socket_leave_def members_def fetchSockets_def

lemmas handler_defs = join_room_def leave_room_def chat_message_def toggle_audio_def
  toggle_video_def host_mute_participant_def host_remove_participant_def
  approve_waiting_participant_def disconnect_def disconnect_room_def

lemmas prisma_defs = store_rejects_def prisma_room_findUnique_def room_participants_of_def
  prisma_participant_updateMany_def prisma_waitingRoom_update_def prisma_participant_create_def

lemmas deployment_defs = world0_def world_live_def store0_def room_R_def room_Q_def room_Z_def
  host_sock_def guest_sock_def stranger_sock_def

text \<open>
  \<open>world_live\<close> is what the server holds, its log put aside, once \<open>H\<close> and \<open>G\<close> have joined
  \<open>R\<close>, \<open>G\<close> has joined \<open>Q\<close> as well and has muted itself in \<open>R\<close>.
\<close>

lemma world_live_reachable:
  "(run [(host_sock, JoinRoom ''R''), (guest_sock, JoinRoom ''R''),
         (guest_sock, JoinRoom ''Q''), (guest_sock, ToggleAudio ''R'' True)] world0)
     \<lparr>outbox := []\<rparr> = world_live"
  by (simp add: handler_defs prisma_defs emit_defs deployment_defs Let_def)

lemma wf_registry_world_live: "wf_registry (roomParticipants world_live)"
  by (simp add: wf_registry_def world_live_def)

lemma all_whitespace_trim:
  assumes "\<forall>c\<in>set s. js_whitespace c"
  shows "trim s = []"
proof -
  have "dropWhile js_whitespace s = []"
    using assms by (induction s) simp_all
  then show ?thesis
    unfolding trim_def by (simp del: dropWhile_eq_Nil_conv)
qed

lemma presence_update:
  "Map_get roomId reg = Some ps \<Longrightarrow>
   presence (Map_set roomId (Map_set uid p ps) reg) r u =
     (if r = roomId \<and> u = uid then Some p else presence reg r u)"
  by (auto simp add: presence_def update_conv')

lemma filter_key_update:
  "distinct (Map_keys m) \<Longrightarrow> filter (\<lambda>e. fst e = k) (Map_set k v m) = [(k, v)]"
proof (induction m)
  case Nil
  then show ?case by simp
next
  case (Cons e m)
  have absent: "filter (\<lambda>e. fst e = k) m = []" if "fst e = k"
  proof -
    have "k \<notin> fst ` set m"
      using Cons.prems that by simp
    then show ?thesis
      by (force simp add: filter_empty_conv)
  qed
  show ?case
    using Cons absent by auto
qed

lemma wf_registry_inner:
  "wf_registry reg \<Longrightarrow> Map_get roomId reg = Some ps \<Longrightarrow> distinct (Map_keys ps)"
  by (auto simp add: wf_registry_def list_all_iff dest: map_of_SomeD)

section \<open>join-room\<close>

text \<open>
  Claim C2: after a join-room that passes the three checks (the room exists, is active,
  and the store holds a participant record of the user with \<open>leftAt = null\<close>), the registry
  holds exactly one entry for the room and the user, whether or not the user had an entry
  before; the entry is unmuted, its video is off exactly when the room has video disabled,
  and its role is the role of the participant record.
\<close>

theorem join_room_success:
  assumes found: "prisma_room_findUnique (prisma w) roomId = Inr (Some room)"
    and active: "r_isActive room"
    and rec: "room_participants_of (prisma w) roomId (userId s) = participant # others"
    and wf: "wf_registry (roomParticipants w)"
  shows "\<exists>ps. Map_get roomId (roomParticipants (join_room s roomId w)) = Some ps
           \<and> filter (\<lambda>e. fst e = roomId) (roomParticipants (join_room s roomId w)) = [(roomId, ps)]
           \<and> filter (\<lambda>e. fst e = userId s) ps =
               [(userId s, \<lparr>odId = userId s, odName = userName s, odIsMuted = False,
                            odIsVideoOff = (\<not> r_videoEnabled room), odRole = p_role participant\<rparr>)]"
proof (cases "Map_get roomId (roomParticipants w)")
  case None
  have d: "distinct (Map_keys (roomParticipants w))"
    using wf by (simp add: wf_registry_def)
  show ?thesis
    using found active rec None
    by (simp add: join_room_def emit_defs Let_def update_conv' filter_key_update [OF d])
next
  case (Some ps)
  have d: "distinct (Map_keys (roomParticipants w))"
    using wf by (simp add: wf_registry_def)
  have d': "distinct (Map_keys ps)"
    using wf Some by (rule wf_registry_inner)
  show ?thesis
    using found active rec Some
    by (simp add: join_room_def emit_defs Let_def update_conv' filter_key_update [OF d]
        filter_key_update [OF d'])
qed

text \<open>
  In \<open>world_live\<close> the guest \<open>G\<close> is in \<open>R\<close> already and muted. Joining again leaves one
  entry for \<open>G\<close>, unmuted.
\<close>

theorem join_room_success_witness:
  "prisma_room_findUnique (prisma world_live) ''R'' = Inr (Some room_R)
   \<and> r_isActive room_R
   \<and> room_participants_of (prisma world_live) ''R'' (userId guest_sock) =
        [\<lparr>p_userId = ''G'', p_roomId = ''R'', p_role = GUEST, p_leftAt = None\<rparr>]
   \<and> wf_registry (roomParticipants world_live)
   \<and> presence (roomParticipants world_live) ''R'' ''G'' =
        Some \<lparr>odId = ''G'', odName = ''Gil'', odIsMuted = True, odIsVideoOff = False, odRole = GUEST\<rparr>
   \<and> (\<exists>ps. Map_get ''R'' (roomParticipants (join_room guest_sock ''R'' world_live)) = Some ps
          \<and> filter (\<lambda>e. fst e = ''R'') (roomParticipants (join_room guest_sock ''R'' world_live))
              = [(''R'', ps)]
          \<and> filter (\<lambda>e. fst e = ''G'') ps =
              [(''G'', \<lparr>odId = ''G'', odName = ''Gil'', odIsMuted = False, odIsVideoOff = False,
                        odRole = GUEST\<rparr>)])"
proof -
  have found: "prisma_room_findUnique (prisma world_live) ''R'' = Inr (Some room_R)"
    by (simp add: prisma_defs deployment_defs)
  have active: "r_isActive room_R"
    by (simp add: room_R_def)
  have rec: "room_participants_of (prisma world_live) ''R'' (userId guest_sock) =
      \<lparr>p_userId = ''G'', p_roomId = ''R'', p_role = GUEST, p_leftAt = None\<rparr> # []"
    by (simp add: prisma_defs deployment_defs)
  have pres: "presence (roomParticipants world_live) ''R'' ''G'' =
      Some \<lparr>odId = ''G'', odName = ''Gil'', odIsMuted = True, odIsVideoOff = False, odRole = GUEST\<rparr>"
    by (simp add: presence_def world_live_def)
  show ?thesis
    using join_room_success [OF found active rec wf_registry_world_live] found active rec pres
      wf_registry_world_live
    by (simp add: guest_sock_def room_R_def)
qed

text \<open>
  The lookup of a room is refused exactly for the ids the store rejects; every other id
  is answered with the row of that id, or with none.
\<close>

lemma prisma_room_findUnique_refused:
  "(\<exists>e. prisma_room_findUnique db roomId = Inl e) \<longleftrightarrow> store_rejects roomId"
  by (simp add: prisma_room_findUnique_def)

lemma prisma_room_findUnique_answered:
  "prisma_room_findUnique db roomId = Inr answer \<longleftrightarrow>
     \<not> store_rejects roomId \<and> answer = find (\<lambda>r. r_id r = roomId) (rooms db)"
  by (auto simp add: prisma_room_findUnique_def)

text \<open>
  Claim C3 says that every join-room command for which no persisted room exists fails
  with "Room not found". A room id that holds U+0000 names no persisted room, yet the
  lookup itself throws on it, and the handler's \<open>catch\<close> answers "Failed to join room".
\<close>

theorem join_room_refused_lookup_counterexample:
  "map r_id (rooms (prisma world_live)) = [''R'', ''Q'', ''Z'']
   \<and> join_room guest_sock [CHR 0x00] world_live =
       world_live\<lparr>outbox := [(ToSocket ''c2'', [''c2''], Error ''Failed to join room'')]\<rparr>"
  by (simp add: join_room_def prisma_defs socket_emit_def deployment_defs)

text \<open>
  Claim C3, amended: when the store refuses the lookup of the room, join-room fails
  with "Failed to join room"; when the store answers, it fails with "Room not found" if
  there is no such room, otherwise with "Room is not active" if the room's active flag is
  false, otherwise with "You are not a participant in this room" if the store has no
  participant record of the user in the room with \<open>leftAt = null\<close>, the checks being made
  in that order. Each failure is one error event sent to the caller alone: the world
  afterwards is the world before with that emission appended, so the registry, the store
  and the groups are unchanged and nothing is sent to a room.
\<close>

theorem join_room_failures:
  "(\<forall>e. prisma_room_findUnique (prisma w) roomId = Inl e \<longrightarrow>
      join_room s roomId w =
        w\<lparr>outbox := outbox w @ [(ToSocket (sid s), [sid s], Error ''Failed to join room'')]\<rparr>)
   \<and> (prisma_room_findUnique (prisma w) roomId = Inr None \<longrightarrow>
      join_room s roomId w =
        w\<lparr>outbox := outbox w @ [(ToSocket (sid s), [sid s], Error ''Room not found'')]\<rparr>)
   \<and> (\<forall>room. prisma_room_findUnique (prisma w) roomId = Inr (Some room) \<and> \<not> r_isActive room \<longrightarrow>
      join_room s roomId w =
        w\<lparr>outbox := outbox w @ [(ToSocket (sid s), [sid s], Error ''Room is not active'')]\<rparr>)
   \<and> (\<forall>room. prisma_room_findUnique (prisma w) roomId = Inr (Some room) \<and> r_isActive room
          \<and> room_participants_of (prisma w) roomId (userId s) = [] \<longrightarrow>
      join_room s roomId w =
        w\<lparr>outbox := outbox w @
            [(ToSocket (sid s), [sid s], Error ''You are not a participant in this room'')]\<rparr>)"
  by (simp add: join_room_def socket_emit_def)

text \<open>The four failures, each on its own command, in \<open>world_live\<close>.\<close>

theorem join_room_failures_witness:
  "prisma_room_findUnique (prisma world_live) [CHR 0x00] = Inl PrismaClientError
   \<and> join_room guest_sock [CHR 0x00] world_live =
       world_live\<lparr>outbox := [(ToSocket ''c2'', [''c2''], Error ''Failed to join room'')]\<rparr>
   \<and> prisma_room_findUnique (prisma world_live) ''nowhere'' = Inr None
   \<and> join_room guest_sock ''nowhere'' world_live =
       world_live\<lparr>outbox := [(ToSocket ''c2'', [''c2''], Error ''Room not found'')]\<rparr>
   \<and> prisma_room_findUnique (prisma world_live) ''Z'' = Inr (Some room_Z) \<and> \<not> r_isActive room_Z
   \<and> join_room stranger_sock ''Z'' world_live =
       world_live\<lparr>outbox := [(ToSocket ''c3'', [''c3''], Error ''Room is not active'')]\<rparr>
   \<and> prisma_room_findUnique (prisma world_live) ''R'' = Inr (Some room_R) \<and> r_isActive room_R
   \<and> room_participants_of (prisma world_live) ''R'' (userId stranger_sock) = []
   \<and> join_room stranger_sock ''R'' world_live =
       world_live\<lparr>outbox := [(ToSocket ''c3'', [''c3''], Error ''You are not a participant in this room'')]\<rparr>"
proof -
  have r: "prisma_room_findUnique (prisma world_live) [CHR 0x00] = Inl PrismaClientError"
    by (simp add: prisma_defs deployment_defs)
  have a: "prisma_room_findUnique (prisma world_live) ''nowhere'' = Inr None"
    by (simp add: prisma_defs deployment_defs)
  have b: "prisma_room_findUnique (prisma world_live) ''Z'' = Inr (Some room_Z) \<and> \<not> r_isActive room_Z"
    by (simp add: prisma_defs deployment_defs)
  have c: "prisma_room_findUnique (prisma world_live) ''R'' = Inr (Some room_R) \<and> r_isActive room_R
      \<and> room_participants_of (prisma world_live) ''R'' (userId stranger_sock) = []"
    by (simp add: prisma_defs deployment_defs)
  have log: "outbox world_live = []" and ids: "sid guest_sock = ''c2''" "sid stranger_sock = ''c3''"
    by (simp_all add: deployment_defs)
  show ?thesis
    using join_room_failures [of world_live "[CHR 0x00]" guest_sock]
      join_room_failures [of world_live "''nowhere''" guest_sock]
      join_room_failures [of world_live "''Z''" stranger_sock]
      join_room_failures [of world_live "''R''" stranger_sock] r a b c
    by (simp add: log ids)
qed

section \<open>disconnect\<close>

text \<open>The Map operations on a key whose position in the list is known.\<close>

lemma Map_get_middle:
  "k \<notin> fst ` set pre \<Longrightarrow> Map_get k (pre @ (k, v) # rest) = Some v"
  by (induction pre) auto

lemma Map_set_middle:
  "k \<notin> fst ` set pre \<Longrightarrow> Map_set k v (pre @ (k, v0) # rest) = pre @ (k, v) # rest"
  by (induction pre) auto

lemma Map_delete_middle:
  "k \<notin> fst ` set pre \<Longrightarrow> k \<notin> fst ` set rest \<Longrightarrow> Map_delete k (pre @ (k, v) # rest) = pre @ rest"
  by (induction pre) auto

lemma members_frame [simp]:
  "members roomId (w\<lparr>roomParticipants := reg\<rparr>) = members roomId w"
  "members roomId (w\<lparr>outbox := out\<rparr>) = members roomId w"
  by (simp_all add: members_def)

text \<open>One turn of the loop, on a registry whose keys are distinct.\<close>

lemma disconnect_room_effect:
  assumes "r \<notin> fst ` set pre" and "r \<notin> fst ` set rest"
    and "roomParticipants w = pre @ (r, ps) # rest"
  shows "disconnect_room s r w =
    (if Map_has (userId s) ps
     then w\<lparr>roomParticipants :=
              pre @ (if Map_delete (userId s) ps = [] then [] else [(r, Map_delete (userId s) ps)]) @ rest,
            outbox := outbox w @
              [(ToOthers r (sid s), filter (\<lambda>x. x \<noteq> sid s) (members r w),
                ParticipantLeft (userId s) (userName s))]\<rparr>
     else w)"
proof -
  have get: "Map_get r (roomParticipants w) = Some ps"
    unfolding assms(3) using assms(1) by (rule Map_get_middle)
  have put: "Map_set r v (roomParticipants w) = pre @ (r, v) # rest" for v
    unfolding assms(3) using assms(1) by (rule Map_set_middle)
  have del: "Map_delete r (pre @ (r, v) # rest) = pre @ rest" for v
    using assms(1,2) by (rule Map_delete_middle)
  show ?thesis
    by (simp add: disconnect_room_def get put del socket_to_emit_def set_registry_def Let_def)
qed

text \<open>
  The whole loop: with the keys before \<open>rest\<close> already visited, every entry of \<open>rest\<close> that
  holds the user loses it and is dropped when nothing is left, and one participant-left
  emission is logged for each of them, in order.
\<close>

lemma disconnect_each_effect:
  assumes "distinct (Map_keys (pre @ rest))" and "roomParticipants w = pre @ rest"
  shows "disconnect_each s (Map_keys rest) w =
    w\<lparr>roomParticipants :=
         pre @ List.map_filter
                 (\<lambda>e. if Map_has (userId s) (snd e)
                      then if Map_delete (userId s) (snd e) = [] then None
                           else Some (fst e, Map_delete (userId s) (snd e))
                      else Some e) rest,
       outbox := outbox w @
         map (\<lambda>e. (ToOthers (fst e) (sid s), filter (\<lambda>x. x \<noteq> sid s) (members (fst e) w),
                    ParticipantLeft (userId s) (userName s)))
             (filter (\<lambda>e. Map_has (userId s) (snd e)) rest)\<rparr>"
  using assms
proof (induction rest arbitrary: pre w)
  case Nil
  then show ?case by simp
next
  case (Cons e rest)
  obtain r ps where e: "e = (r, ps)"
    by (cases e)
  from Cons.prems(1) have fresh: "r \<notin> fst ` set pre" "r \<notin> fst ` set rest"
    by (auto simp add: e)
  from Cons.prems(1) have d: "distinct (Map_keys (pre @ rest))"
    by (simp add: e)
  have reg: "roomParticipants w = pre @ (r, ps) # rest"
    using Cons.prems(2) by (simp add: e)
  note turn = disconnect_room_effect [OF fresh reg, of s]
  show ?case
  proof (cases "Map_has (userId s) ps")
    case False
    have d1: "distinct (Map_keys ((pre @ [e]) @ rest))"
      using Cons.prems(1) by simp
    have "disconnect_room s r w = w"
      using turn False by simp
    then show ?thesis
      using Cons.IH [of "pre @ [e]" w, OF d1] Cons.prems(2) False by (simp add: e)
  next
    case True
    show ?thesis
    proof (cases "Map_delete (userId s) ps = []")
      case empty: True
      let ?w1 = "disconnect_room s r w"
      have w1: "?w1 = w\<lparr>roomParticipants := pre @ rest,
          outbox := outbox w @ [(ToOthers r (sid s), filter (\<lambda>x. x \<noteq> sid s) (members r w),
                                 ParticipantLeft (userId s) (userName s))]\<rparr>"
        using turn True empty by simp
      have "roomParticipants ?w1 = pre @ rest"
        by (simp add: w1)
      from Cons.IH [OF d this] show ?thesis
        using True empty by (simp add: e w1)
    next
      case nonempty: False
      let ?w1 = "disconnect_room s r w"
      let ?e1 = "(r, Map_delete (userId s) ps)"
      have w1: "?w1 = w\<lparr>roomParticipants := pre @ ?e1 # rest,
          outbox := outbox w @ [(ToOthers r (sid s), filter (\<lambda>x. x \<noteq> sid s) (members r w),
                                 ParticipantLeft (userId s) (userName s))]\<rparr>"
        using turn True nonempty by simp
      have d1: "distinct (Map_keys ((pre @ [?e1]) @ rest))"
        using Cons.prems(1) by (simp add: e)
      have "roomParticipants ?w1 = (pre @ [?e1]) @ rest"
        by (simp add: w1)
      from Cons.IH [OF d1 this] show ?thesis
        using True nonempty by (simp add: e w1)
    qed
  qed
qed


lemma Map_get_map_filter:
  assumes "distinct (Map_keys reg)"
  shows "Map_get r (List.map_filter
                 (\<lambda>e. if Map_has u (snd e)
                      then if Map_delete u (snd e) = [] then None
                           else Some (fst e, Map_delete u (snd e))
                      else Some e) reg) =
    (case Map_get r reg of
       None \<Rightarrow> None
     | Some ps \<Rightarrow> if Map_has u ps
                 then if Map_delete u ps = [] then None else Some (Map_delete u ps)
                 else Some ps)"
  using assms
proof (induction reg)
  case Nil
  then show ?case by simp
next
  case (Cons e reg)
  have "Map_get (fst e) reg = None"
    using Cons.prems by (simp add: map_of_eq_None_iff)
  then show ?case
    using Cons by (cases e) auto
qed

lemma rooms_of_user:
  assumes "distinct (Map_keys reg)"
  shows "filter (\<lambda>roomId. presence reg roomId u \<noteq> None) (Map_keys reg) =
         Map_keys (filter (\<lambda>e. Map_has u (snd e)) reg)"
proof -
  have "presence reg (fst e) u \<noteq> None \<longleftrightarrow> Map_has u (snd e)" if "e \<in> set reg" for e
  proof -
    have "Map_get (fst e) reg = Some (snd e)"
      using assms that by simp
    then show ?thesis
      by (simp add: presence_def)
  qed
  then show ?thesis
    by (simp add: filter_map comp_def cong: filter_cong)
qed

lemma remaining_pairs:
  "filter (\<lambda>x. x \<noteq> a) (map fst (filter (\<lambda>p. snd p = r) (filter (\<lambda>p. fst p \<noteq> a) ad)))
     = filter (\<lambda>x. x \<noteq> a) (map fst (filter (\<lambda>p. snd p = r) ad))"
  by (induction ad) auto

lemma remaining_members:
  "filter (\<lambda>x. x \<noteq> a) (members roomId (w\<lparr>conns := cs, adapter := filter (\<lambda>p. fst p \<noteq> a) (adapter w)\<rparr>))
     = filter (\<lambda>x. x \<noteq> a) (members roomId w)"
proof -
  have "adapter (w\<lparr>conns := cs, adapter := filter (\<lambda>p. fst p \<noteq> a) (adapter w)\<rparr>)
      = filter (\<lambda>p. fst p \<noteq> a) (adapter w)"
    by simp
  then show ?thesis
    unfolding members_def by (simp only: remaining_pairs)
qed

lemma disconnect_effect:
  assumes "distinct (Map_keys (roomParticipants w))"
  shows "roomParticipants (disconnect s w) =
           List.map_filter
             (\<lambda>e. if Map_has (userId s) (snd e)
                  then if Map_delete (userId s) (snd e) = [] then None
                       else Some (fst e, Map_delete (userId s) (snd e))
                  else Some e) (roomParticipants w)"
    and "outbox (disconnect s w) = outbox w @
           map (\<lambda>roomId. (ToOthers roomId (sid s), filter (\<lambda>x. x \<noteq> sid s) (members roomId w),
                          ParticipantLeft (userId s) (userName s)))
             (filter (\<lambda>roomId. presence (roomParticipants w) roomId (userId s) \<noteq> None)
                (Map_keys (roomParticipants w)))"
proof -
  let ?w0 = "w\<lparr>conns := filter (\<lambda>c. sid c \<noteq> sid s) (conns w),
               adapter := filter (\<lambda>p. fst p \<noteq> sid s) (adapter w)\<rparr>"
  have d: "distinct (Map_keys ([] @ roomParticipants w))"
    using assms by simp
  have reg: "roomParticipants ?w0 = [] @ roomParticipants w"
    by simp
  note loop = disconnect_each_effect [OF d reg, of s]
  have run: "disconnect s w = disconnect_each s (Map_keys (roomParticipants w)) ?w0"
    by (simp add: disconnect_def Let_def)
  show "roomParticipants (disconnect s w) =
           List.map_filter
             (\<lambda>e. if Map_has (userId s) (snd e)
                  then if Map_delete (userId s) (snd e) = [] then None
                       else Some (fst e, Map_delete (userId s) (snd e))
                  else Some e) (roomParticipants w)"
    by (simp add: run loop)
  show "outbox (disconnect s w) = outbox w @
           map (\<lambda>roomId. (ToOthers roomId (sid s), filter (\<lambda>x. x \<noteq> sid s) (members roomId w),
                          ParticipantLeft (userId s) (userName s)))
             (filter (\<lambda>roomId. presence (roomParticipants w) roomId (userId s) \<noteq> None)
                (Map_keys (roomParticipants w)))"
    by (simp add: run loop rooms_of_user [OF assms] remaining_members comp_def del: not_None_eq)
qed

text \<open>
  Claim C4: a disconnect cleans up every room in which the session's user has an entry,
  not only one. Afterwards the user has no entry in any room; for each room that held one,
  in the order of the registry, a participant-left event goes to the remaining connections
  of that room; such a room keeps its other entries, and is pruned from the registry when
  none is left; the rooms without the user are untouched.
\<close>

theorem disconnect_cleanup:
  assumes wf: "wf_registry (roomParticipants w)"
  shows "(\<forall>roomId. presence (roomParticipants (disconnect s w)) roomId (userId s) = None)
    \<and> outbox (disconnect s w) = outbox w @
         map (\<lambda>roomId. (ToOthers roomId (sid s), filter (\<lambda>x. x \<noteq> sid s) (members roomId w),
                        ParticipantLeft (userId s) (userName s)))
           (filter (\<lambda>roomId. presence (roomParticipants w) roomId (userId s) \<noteq> None)
              (Map_keys (roomParticipants w)))
    \<and> (\<forall>roomId ps. Map_get roomId (roomParticipants w) = Some ps \<and> Map_has (userId s) ps \<longrightarrow>
          Map_get roomId (roomParticipants (disconnect s w)) =
            (if Map_delete (userId s) ps = [] then None else Some (Map_delete (userId s) ps)))
    \<and> (\<forall>roomId ps. Map_get roomId (roomParticipants w) = Some ps \<and> \<not> Map_has (userId s) ps \<longrightarrow>
          Map_get roomId (roomParticipants (disconnect s w)) = Some ps)
    \<and> (\<forall>roomId. Map_get roomId (roomParticipants w) = None \<longrightarrow>
          Map_get roomId (roomParticipants (disconnect s w)) = None)"
proof -
  have d: "distinct (Map_keys (roomParticipants w))"
    using wf by (simp add: wf_registry_def)
  note get = Map_get_map_filter [OF d, where u = "userId s"]
  have "presence (roomParticipants (disconnect s w)) roomId (userId s) = None" for roomId
    by (simp add: presence_def disconnect_effect(1) [OF d] get delete_conv' del: not_None_eq
        split: option.splits sum.splits)
  moreover have "Map_get roomId (roomParticipants (disconnect s w)) =
      (if Map_delete (userId s) ps = [] then None else Some (Map_delete (userId s) ps))"
    if "Map_get roomId (roomParticipants w) = Some ps" "Map_has (userId s) ps" for roomId ps
    using that by (simp add: disconnect_effect(1) [OF d] get del: not_None_eq)
  moreover have "Map_get roomId (roomParticipants (disconnect s w)) = Some ps"
    if "Map_get roomId (roomParticipants w) = Some ps" "\<not> Map_has (userId s) ps" for roomId ps
    using that by (simp add: disconnect_effect(1) [OF d] get del: not_None_eq)
  moreover have "Map_get roomId (roomParticipants (disconnect s w)) = None"
    if "Map_get roomId (roomParticipants w) = None" for roomId
    using that by (simp add: disconnect_effect(1) [OF d] get del: not_None_eq)
  ultimately show ?thesis
    using disconnect_effect(2) [OF d, of s] by blast
qed

text \<open>
  \<open>G\<close> is in \<open>R\<close> with \<open>H\<close> and alone in \<open>Q\<close>. When its connection drops, \<open>R\<close> keeps \<open>H\<close>,
  \<open>Q\<close> is pruned, and both rooms are told.
\<close>

theorem disconnect_cleanup_witness:
  "wf_registry (roomParticipants world_live)
   \<and> presence (roomParticipants world_live) ''R'' (userId guest_sock) \<noteq> None
   \<and> presence (roomParticipants world_live) ''Q'' (userId guest_sock) \<noteq> None
   \<and> presence (roomParticipants (disconnect guest_sock world_live)) ''R'' ''G'' = None
   \<and> presence (roomParticipants (disconnect guest_sock world_live)) ''Q'' ''G'' = None
   \<and> Map_get ''R'' (roomParticipants (disconnect guest_sock world_live)) =
        Some [(''H'', \<lparr>odId = ''H'', odName = ''Hana'', odIsMuted = False,
                        odIsVideoOff = False, odRole = HOST\<rparr>)]
   \<and> Map_get ''Q'' (roomParticipants (disconnect guest_sock world_live)) = None
   \<and> outbox (disconnect guest_sock world_live) =
        [(ToOthers ''R'' ''c2'', [''c1''], ParticipantLeft ''G'' ''Gil''),
         (ToOthers ''Q'' ''c2'', [], ParticipantLeft ''G'' ''Gil'')]"
proof -
  note cleanup = disconnect_cleanup [OF wf_registry_world_live, of guest_sock]
  have me: "userId guest_sock = ''G''" "sid guest_sock = ''c2''" "userName guest_sock = ''Gil''"
    by (simp_all add: guest_sock_def)
  have inR: "presence (roomParticipants world_live) ''R'' ''G'' \<noteq> None"
    and inQ: "presence (roomParticipants world_live) ''Q'' ''G'' \<noteq> None"
    by (simp_all add: presence_def world_live_def)
  have getR: "Map_get ''R'' (roomParticipants world_live) =
      Some [(''H'', \<lparr>odId = ''H'', odName = ''Hana'', odIsMuted = False,
                      odIsVideoOff = False, odRole = HOST\<rparr>),
            (''G'', \<lparr>odId = ''G'', odName = ''Gil'', odIsMuted = True,
                      odIsVideoOff = False, odRole = GUEST\<rparr>)]"
    and getQ: "Map_get ''Q'' (roomParticipants world_live) =
      Some [(''G'', \<lparr>odId = ''G'', odName = ''Gil'', odIsMuted = False,
                      odIsVideoOff = True, odRole = GUEST\<rparr>)]"
    by (simp_all add: world_live_def)
  have gone: "presence (roomParticipants (disconnect guest_sock world_live)) ''R'' ''G'' = None"
      "presence (roomParticipants (disconnect guest_sock world_live)) ''Q'' ''G'' = None"
    using cleanup by (simp_all add: me)
  have kept: "Map_get roomId (roomParticipants (disconnect guest_sock world_live)) =
      (if Map_delete ''G'' ps = [] then None else Some (Map_delete ''G'' ps))"
    if "Map_get roomId (roomParticipants world_live) = Some ps" and "Map_has ''G'' ps" for roomId ps
    using cleanup that by (simp add: me)
  have keptR: "Map_get ''R'' (roomParticipants (disconnect guest_sock world_live)) =
      Some [(''H'', \<lparr>odId = ''H'', odName = ''Hana'', odIsMuted = False,
                      odIsVideoOff = False, odRole = HOST\<rparr>)]"
    using kept [OF getR] by simp
  have prunedQ: "Map_get ''Q'' (roomParticipants (disconnect guest_sock world_live)) = None"
    using kept [OF getQ] by simp
  have log: "outbox (disconnect guest_sock world_live) =
      [(ToOthers ''R'' ''c2'', [''c1''], ParticipantLeft ''G'' ''Gil''),
       (ToOthers ''Q'' ''c2'', [], ParticipantLeft ''G'' ''Gil'')]"
    using cleanup by (simp add: me presence_def members_def world_live_def)
  show ?thesis
    using wf_registry_world_live inR inQ gone keptR prunedQ log by (simp add: me)
qed

section \<open>Host controls\<close>

text \<open>
  Claim C5: when the caller of host-mute-participant is the host of the room, the
  target's entry, if there is one, gets \<open>muted = true\<close> and nothing else in the registry
  changes; without such an entry the registry is unchanged. In both cases one
  participant-muted-by-host event with the target's id and the caller's name goes to the
  whole room.
\<close>

theorem host_mute:
  assumes "prisma_room_findUnique (prisma w) roomId = Inr (Some room)" and "r_hostId room = userId s"
  shows "outbox (host_mute_participant s roomId targetUserId w) =
           outbox w @ [(ToRoom roomId, members roomId w, ParticipantMutedByHost targetUserId (userName s))]
    \<and> (presence (roomParticipants w) roomId targetUserId = None \<longrightarrow>
          roomParticipants (host_mute_participant s roomId targetUserId w) = roomParticipants w)
    \<and> (\<forall>p. presence (roomParticipants w) roomId targetUserId = Some p \<longrightarrow>
          presence (roomParticipants (host_mute_participant s roomId targetUserId w)) roomId targetUserId
            = Some (p\<lparr>odIsMuted := True\<rparr>))
    \<and> (\<forall>r u. (r, u) \<noteq> (roomId, targetUserId) \<longrightarrow>
          presence (roomParticipants (host_mute_participant s roomId targetUserId w)) r u
            = presence (roomParticipants w) r u)"
  using assms
  by (auto simp add: host_mute_participant_def emit_defs Let_def presence_update
      split: option.splits sum.splits)
    (auto simp add: presence_def)

text \<open>\<open>H\<close> mutes \<open>G\<close> in \<open>Q\<close>, and then \<open>S\<close>, who has no entry there.\<close>

theorem host_mute_witness:
  "prisma_room_findUnique (prisma world_live) ''Q'' = Inr (Some room_Q)
   \<and> r_hostId room_Q = userId host_sock
   \<and> presence (roomParticipants world_live) ''Q'' ''G'' =
       Some \<lparr>odId = ''G'', odName = ''Gil'', odIsMuted = False, odIsVideoOff = True, odRole = GUEST\<rparr>
   \<and> presence (roomParticipants (host_mute_participant host_sock ''Q'' ''G'' world_live)) ''Q'' ''G'' =
       Some \<lparr>odId = ''G'', odName = ''Gil'', odIsMuted = True, odIsVideoOff = True, odRole = GUEST\<rparr>
   \<and> outbox (host_mute_participant host_sock ''Q'' ''G'' world_live) =
       [(ToRoom ''Q'', [''c2''], ParticipantMutedByHost ''G'' ''Hana'')]
   \<and> presence (roomParticipants world_live) ''Q'' ''S'' = None
   \<and> roomParticipants (host_mute_participant host_sock ''Q'' ''S'' world_live) =
       roomParticipants world_live
   \<and> outbox (host_mute_participant host_sock ''Q'' ''S'' world_live) =
       [(ToRoom ''Q'', [''c2''], ParticipantMutedByHost ''S'' ''Hana'')]"
proof -
  have found: "prisma_room_findUnique (prisma world_live) ''Q'' = Inr (Some room_Q)"
    by (simp add: prisma_defs deployment_defs)
  have host: "r_hostId room_Q = userId host_sock"
    by (simp add: deployment_defs)
  have pres: "presence (roomParticipants world_live) ''Q'' ''G'' =
      Some \<lparr>odId = ''G'', odName = ''Gil'', odIsMuted = False, odIsVideoOff = True, odRole = GUEST\<rparr>"
    by (simp add: presence_def deployment_defs)
  have gone: "presence (roomParticipants world_live) ''Q'' ''S'' = None"
    by (simp add: presence_def deployment_defs)
  have grp: "members ''Q'' world_live = [''c2'']" "outbox world_live = []" "userName host_sock = ''Hana''"
    by (simp_all add: members_def deployment_defs)
  show ?thesis
    using host_mute [OF found host, of "''G''"] host_mute [OF found host, of "''S''"]
      found host pres gone
    by (simp add: grp)
qed

text \<open>
  Claim C6: when the host asks to remove itself, the handler sends "Host cannot remove
  themselves" to the caller and does nothing else: the world afterwards is the world before
  with that one emission appended, so nothing goes to the room and neither the registry nor
  a participant record is written.
\<close>

theorem host_remove_self:
  assumes "prisma_room_findUnique (prisma w) roomId = Inr (Some room)" and "r_hostId room = userId s"
  shows "host_remove_participant s roomId (userId s) now w =
           w\<lparr>outbox := outbox w @ [(ToSocket (sid s), [sid s], Error ''Host cannot remove themselves'')]\<rparr>"
  using assms by (simp add: host_remove_participant_def socket_emit_def)

theorem host_remove_self_witness:
  "prisma_room_findUnique (prisma world_live) ''R'' = Inr (Some room_R)
   \<and> r_hostId room_R = userId host_sock
   \<and> host_remove_participant host_sock ''R'' ''H'' 7 world_live =
       world_live\<lparr>outbox := [(ToSocket ''c1'', [''c1''], Error ''Host cannot remove themselves'')]\<rparr>"
proof -
  have found: "prisma_room_findUnique (prisma world_live) ''R'' = Inr (Some room_R)"
    by (simp add: prisma_defs deployment_defs)
  have host: "r_hostId room_R = userId host_sock"
    by (simp add: deployment_defs)
  have me: "userId host_sock = ''H''" "sid host_sock = ''c1''" "outbox world_live = []"
    by (simp_all add: deployment_defs)
  show ?thesis
    using host_remove_self [OF found host, of 7] found host
    by (simp add: me)
qed

text \<open>
  Claim C9 says that every approve-waiting-participant command of the host sets the
  user's waiting-room row to APPROVED, creates a participant record with role GUEST and
  broadcasts waiting-room-approved, the registry staying unchanged. The handler does so only
  when the store lets it: \<open>waitingRoom.update\<close> throws when the user has no waiting-room
  row for the room, and the handler's \<open>catch\<close> then sends "Failed to approve participant"
  to the caller, with no row approved, no record created and no broadcast.
\<close>

theorem approve_without_waiting_row_counterexample:
  "prisma_room_findUnique (prisma world_live) ''R'' = Inr (Some room_R)
   \<and> r_hostId room_R = userId host_sock
   \<and> approve_waiting_participant host_sock ''R'' ''S'' world_live =
       world_live\<lparr>outbox := [(ToSocket ''c1'', [''c1''], Error ''Failed to approve participant'')]\<rparr>"
  by (simp add: approve_waiting_participant_def prisma_defs emit_defs deployment_defs)

text \<open>
  Claim C9, amended: the registry is unchanged by every approve-waiting-participant
  command; and when the caller is the host of the room, the user has a waiting-room row for
  the room and no participant record for it yet, the row is set to APPROVED, a participant
  record with role GUEST is created and waiting-room-approved with the user's id goes to
  the whole room.
\<close>

theorem approve_waiting:
  "roomParticipants (approve_waiting_participant s roomId uid w) = roomParticipants w
   \<and> (\<forall>room. prisma_room_findUnique (prisma w) roomId = Inr (Some room) \<and> r_hostId room = userId s
         \<and> list_ex (\<lambda>r. w_userId r = uid \<and> w_roomId r = roomId) (waitingRoom (prisma w))
         \<and> \<not> list_ex (\<lambda>p. p_userId p = uid \<and> p_roomId p = roomId) (participants (prisma w)) \<longrightarrow>
       approve_waiting_participant s roomId uid w =
         w\<lparr>prisma := (prisma w)
               \<lparr>participants := participants (prisma w) @
                   [\<lparr>p_userId = uid, p_roomId = roomId, p_role = GUEST, p_leftAt = None\<rparr>],
                waitingRoom := map (\<lambda>r. if w_userId r = uid \<and> w_roomId r = roomId
                                         then r\<lparr>w_status := APPROVED\<rparr> else r)
                                   (waitingRoom (prisma w))\<rparr>,
           outbox := outbox w @ [(ToRoom roomId, members roomId w, WaitingRoomApproved uid)]\<rparr>)"
  by (auto simp add: approve_waiting_participant_def prisma_waitingRoom_update_def
      prisma_participant_create_def emit_defs split: option.splits sum.splits)

text \<open>\<open>H\<close> approves \<open>P\<close>, who waits for \<open>R\<close> and has never been in it.\<close>

theorem approve_waiting_witness:
  "prisma_room_findUnique (prisma world_live) ''R'' = Inr (Some room_R)
   \<and> r_hostId room_R = userId host_sock
   \<and> list_ex (\<lambda>r. w_userId r = ''P'' \<and> w_roomId r = ''R'') (waitingRoom (prisma world_live))
   \<and> \<not> list_ex (\<lambda>p. p_userId p = ''P'' \<and> p_roomId p = ''R'') (participants (prisma world_live))
   \<and> approve_waiting_participant host_sock ''R'' ''P'' world_live =
       world_live
         \<lparr>prisma := store0
             \<lparr>participants := participants store0 @
                 [\<lparr>p_userId = ''P'', p_roomId = ''R'', p_role = GUEST, p_leftAt = None\<rparr>],
              waitingRoom := [\<lparr>w_userId = ''P'', w_roomId = ''R'', w_status = APPROVED\<rparr>,
                              \<lparr>w_userId = ''X'', w_roomId = ''R'', w_status = PENDING\<rparr>]\<rparr>,
          outbox := [(ToRoom ''R'', [''c1'', ''c2''], WaitingRoomApproved ''P'')]\<rparr>
   \<and> roomParticipants (approve_waiting_participant host_sock ''R'' ''P'' world_live) =
       roomParticipants world_live"
proof -
  have found: "prisma_room_findUnique (prisma world_live) ''R'' = Inr (Some room_R)"
    by (simp add: prisma_defs deployment_defs)
  have host: "r_hostId room_R = userId host_sock"
    by (simp add: deployment_defs)
  have waits: "list_ex (\<lambda>r. w_userId r = ''P'' \<and> w_roomId r = ''R'') (waitingRoom (prisma world_live))"
    by (simp add: deployment_defs)
  have fresh: "\<not> list_ex (\<lambda>p. p_userId p = ''P'' \<and> p_roomId p = ''R'') (participants (prisma world_live))"
    by (simp add: deployment_defs)
  have grp: "members ''R'' world_live = [''c1'', ''c2'']" "outbox world_live = []" "prisma world_live = store0"
      "waitingRoom store0 = [\<lparr>w_userId = ''P'', w_roomId = ''R'', w_status = PENDING\<rparr>,
                              \<lparr>w_userId = ''X'', w_roomId = ''R'', w_status = PENDING\<rparr>]"
    by (simp_all add: members_def deployment_defs)
  show ?thesis
    using approve_waiting [of host_sock "''R''" "''P''" world_live] found host waits fresh
    by (simp add: grp)
qed

text \<open>
  \<open>X\<close> waits for \<open>R\<close> too, but left it earlier and still has its participant record:
  \<open>participant.create\<close> breaks the unique index after the waiting-room row has been approved.
\<close>

lemma approve_returning_participant:
  "approve_waiting_participant host_sock ''R'' ''X'' world_live =
     world_live
       \<lparr>prisma := store0
           \<lparr>waitingRoom := [\<lparr>w_userId = ''P'', w_roomId = ''R'', w_status = PENDING\<rparr>,
                            \<lparr>w_userId = ''X'', w_roomId = ''R'', w_status = APPROVED\<rparr>]\<rparr>,
        outbox := [(ToSocket ''c1'', [''c1''], Error ''Failed to approve participant'')]\<rparr>"
  by (simp add: approve_waiting_participant_def prisma_defs emit_defs deployment_defs)

section \<open>Media toggles\<close>



section \<open>Chat relay\<close>

text \<open>
  Claim C8: a chat-message whose text is empty or made of whitespace only leaves the
  world as it is: nothing is broadcast, no error goes to the sender, the registry is
  unchanged.
\<close>

theorem chat_message_blank:
  "\<forall>c\<in>set message. js_whitespace c \<Longrightarrow> chat_message s roomId message msgId isoTime w = w"
  by (simp add: chat_message_def all_whitespace_trim)

text \<open>A space, a tab, an ideographic space and a line feed, then the empty text, from \<open>G\<close> in \<open>R\<close>.\<close>

theorem chat_message_blank_witness:
  "js_whitespace 0x0020 \<and> js_whitespace 0x0009 \<and> js_whitespace 0x3000 \<and> js_whitespace 0x000A
   \<and> presence (roomParticipants world_live) ''R'' (userId guest_sock) \<noteq> None
   \<and> chat_message guest_sock ''R'' [0x0020, 0x0009, 0x3000, 0x000A] ''msg-17-k3'' ''2026-02-06T18:29:47.000Z''
        world_live = world_live
   \<and> chat_message guest_sock ''R'' [] ''msg-17-k3'' ''2026-02-06T18:29:47.000Z'' world_live
        = world_live"
proof -
  have blank: "\<forall>c\<in>set [0x0020, 0x0009, 0x3000, 0x000A]. js_whitespace c"
    by (simp add: js_whitespace_def)
  have empty: "\<forall>c\<in>set []. js_whitespace c"
    by simp
  have pres: "presence (roomParticipants world_live) ''R'' (userId guest_sock) \<noteq> None"
    by (simp add: presence_def deployment_defs)
  show ?thesis
    using chat_message_blank [OF blank, of guest_sock "''R''" "''msg-17-k3''"
        "''2026-02-06T18:29:47.000Z''" world_live]
      chat_message_blank [OF empty, of guest_sock "''R''" "''msg-17-k3''"
        "''2026-02-06T18:29:47.000Z''" world_live] blank pres
    by simp
qed

text \<open>The same sender with a text: it is trimmed and goes to the whole room.\<close>

lemma chat_message_text:
  "chat_message guest_sock ''R'' [0x0020, 0x0068, 0x0069, 0x0020] ''msg-17-k3'' ''t'' world_live =
     world_live\<lparr>outbox := [(ToRoom ''R'', [''c1'', ''c2''],
        ChatMessage ''msg-17-k3'' ''G'' ''Gil'' [0x0068, 0x0069] ''t'')]\<rparr>"
  by (simp add: chat_message_def trim_def js_whitespace_def emit_defs deployment_defs)

section \<open>The registry stays a well-formed Map\<close>

text \<open>
  The theorems on join-room and disconnect assume a registry that holds no key twice.
  Every handler keeps it so, hence so is every registry the server can reach from the empty
  one.
\<close>

subsection \<open>Well-formedness and the invariant under the Map operations\<close>

lemma set_Map_set_subset: "set (Map_set k v m) \<subseteq> insert (k, v) (set m)"
  by (induction m) auto

lemma set_Map_delete_subset: "set (Map_delete k m) \<subseteq> set m"
  by (auto simp add: AList.delete_eq)

lemma wf_registry_Map_set:
  assumes "wf_registry reg" and "distinct (Map_keys ps)"
  shows "wf_registry (Map_set roomId ps reg)"
  using assms set_Map_set_subset [of roomId ps reg]
  by (auto simp add: wf_registry_def list_all_iff distinct_update)

lemma wf_registry_Map_delete:
  assumes "wf_registry reg"
  shows "wf_registry (Map_delete roomId reg)"
  using assms set_Map_delete_subset [of roomId reg]
  by (auto simp add: wf_registry_def list_all_iff distinct_delete)

lemma no_empty_room_Map_set:
  assumes "no_empty_room reg" and "ps \<noteq> []"
  shows "no_empty_room (Map_set roomId ps reg)"
  using assms set_Map_set_subset [of roomId ps reg]
  by (auto simp add: no_empty_room_def list_all_iff)

lemma no_empty_room_Map_delete:
  assumes "no_empty_room reg"
  shows "no_empty_room (Map_delete roomId reg)"
  using assms set_Map_delete_subset [of roomId reg]
  by (auto simp add: no_empty_room_def list_all_iff)

lemma no_empty_room_prune:
  assumes "no_empty_room reg"
  shows "no_empty_room (Map_delete roomId (Map_set roomId ps reg))"
  using assms by (simp add: delete_update_same no_empty_room_Map_delete)

lemma no_empty_room_Map_get:
  "no_empty_room reg \<Longrightarrow> Map_get roomId reg = Some ps \<Longrightarrow> ps \<noteq> []"
  by (force simp add: no_empty_room_def list_all_iff dest: map_of_SomeD)

subsection \<open>Every handler keeps the registry a well-formed Map\<close>

lemma wf_registry_join_room:
  assumes "wf_registry (roomParticipants w)"
  shows "wf_registry (roomParticipants (join_room s roomId w))"
proof (cases "Map_get roomId (roomParticipants w)")
  case None
  have "wf_registry (Map_set roomId [(userId s, p)] (roomParticipants w))" for p
    using assms by (simp add: wf_registry_Map_set)
  then show ?thesis
    using assms None
    by (simp add: join_room_def emit_defs Let_def update_conv' split: option.splits sum.splits list.splits)
next
  case (Some ps)
  have "wf_registry (Map_set roomId (Map_set (userId s) p ps) (roomParticipants w))" for p
    using assms Some by (simp add: wf_registry_Map_set wf_registry_inner distinct_update)
  then show ?thesis
    using assms Some
    by (simp add: join_room_def emit_defs Let_def split: option.splits sum.splits list.splits)
qed

lemma wf_registry_leave_room:
  assumes "wf_registry (roomParticipants w)"
  shows "wf_registry (roomParticipants (leave_room s roomId w))"
proof (cases "Map_get roomId (roomParticipants w)")
  case None
  then show ?thesis
    using assms by (simp add: leave_room_def emit_defs Let_def)
next
  case (Some ps)
  have "wf_registry (Map_set roomId (Map_delete (userId s) ps) (roomParticipants w))"
    using assms Some by (simp add: wf_registry_Map_set wf_registry_inner distinct_delete)
  moreover have "wf_registry (Map_delete roomId (Map_set roomId ps' (roomParticipants w)))" for ps'
    using assms by (simp add: delete_update_same wf_registry_Map_delete)
  ultimately show ?thesis
    using Some by (simp add: leave_room_def emit_defs Let_def)
qed

lemma wf_registry_toggle:
  assumes "wf_registry (roomParticipants w)"
  shows "wf_registry (roomParticipants (toggle_audio s roomId b w))"
    and "wf_registry (roomParticipants (toggle_video s roomId b w))"
  using assms
  by (auto simp add: toggle_audio_def toggle_video_def emit_defs Let_def wf_registry_Map_set
      wf_registry_inner distinct_update split: option.splits sum.splits)

lemma wf_registry_chat_message:
  assumes "wf_registry (roomParticipants w)"
  shows "wf_registry (roomParticipants (chat_message s roomId message msgId isoTime w))"
  using assms by (simp add: chat_message_def emit_defs split: option.splits sum.splits)

lemma wf_registry_host_mute:
  assumes "wf_registry (roomParticipants w)"
  shows "wf_registry (roomParticipants (host_mute_participant s roomId targetUserId w))"
  using assms
  by (auto simp add: host_mute_participant_def emit_defs Let_def wf_registry_Map_set
      wf_registry_inner distinct_update split: option.splits sum.splits)

lemma roomParticipants_evict_sockets [simp]:
  "roomParticipants (evict_sockets s roomId targetUserId cs w) = roomParticipants w"
  by (induction cs arbitrary: w) (simp_all add: emit_defs)

lemma wf_registry_host_remove:
  assumes "wf_registry (roomParticipants w)"
  shows "wf_registry (roomParticipants (host_remove_participant s roomId targetUserId now w))"
  using assms
  by (auto simp add: host_remove_participant_def emit_defs Let_def wf_registry_Map_set
      wf_registry_inner distinct_delete split: option.splits sum.splits)

lemma roomParticipants_approve [simp]:
  "roomParticipants (approve_waiting_participant s roomId uid w) = roomParticipants w"
  by (simp add: approve_waiting_participant_def emit_defs split: option.splits sum.splits)

lemma wf_registry_disconnect_room:
  assumes "wf_registry (roomParticipants w)"
  shows "wf_registry (roomParticipants (disconnect_room s roomId w))"
proof (cases "Map_get roomId (roomParticipants w)")
  case None
  then show ?thesis
    using assms by (simp add: disconnect_room_def)
next
  case (Some ps)
  have "wf_registry (Map_set roomId (Map_delete (userId s) ps) (roomParticipants w))"
    using assms Some by (simp add: wf_registry_Map_set wf_registry_inner distinct_delete)
  moreover have "wf_registry (Map_delete roomId (Map_set roomId ps' (roomParticipants w)))" for ps'
    using assms by (simp add: delete_update_same wf_registry_Map_delete)
  ultimately show ?thesis
    using assms Some by (simp add: disconnect_room_def emit_defs Let_def)
qed

lemma wf_registry_disconnect_each:
  "wf_registry (roomParticipants w) \<Longrightarrow> wf_registry (roomParticipants (disconnect_each s roomIds w))"
  by (induction roomIds arbitrary: w) (simp_all add: wf_registry_disconnect_room)

lemma wf_registry_disconnect:
  assumes "wf_registry (roomParticipants w)"
  shows "wf_registry (roomParticipants (disconnect s w))"
  using assms by (simp add: disconnect_def Let_def wf_registry_disconnect_each)

lemma wf_registry_handle:
  assumes "wf_registry (roomParticipants w)"
  shows "wf_registry (roomParticipants (handle s c w))"
  using assms
  by (cases c)
    (simp_all add: wf_registry_join_room wf_registry_leave_room wf_registry_chat_message
      wf_registry_toggle wf_registry_host_mute wf_registry_host_remove wf_registry_disconnect)

lemma wf_registry_run:
  "wf_registry (roomParticipants w) \<Longrightarrow> wf_registry (roomParticipants (run cs w))"
  by (induction cs arbitrary: w) (auto simp add: wf_registry_handle)

lemma wf_registry_reachable:
  assumes "roomParticipants w = []"
  shows "wf_registry (roomParticipants (run cs w))"
proof (rule wf_registry_run)
  show "wf_registry (roomParticipants w)"
    using assms by (simp add: wf_registry_def)
qed

section \<open>The registry invariant\<close>

subsection \<open>Every handler but host-remove-participant keeps the invariant\<close>

lemma no_empty_room_join_room:
  assumes "no_empty_room (roomParticipants w)"
  shows "no_empty_room (roomParticipants (join_room s roomId w))"
proof (cases "Map_get roomId (roomParticipants w)")
  case None
  have "no_empty_room (Map_set roomId [(userId s, p)] (roomParticipants w))" for p
    using assms by (simp add: no_empty_room_Map_set)
  then show ?thesis
    using assms None
    by (simp add: join_room_def emit_defs Let_def update_conv' split: option.splits sum.splits list.splits)
next
  case (Some ps)
  have "no_empty_room (Map_set roomId (Map_set (userId s) p ps) (roomParticipants w))" for p
    using assms by (simp add: no_empty_room_Map_set)
  then show ?thesis
    using assms Some
    by (simp add: join_room_def emit_defs Let_def split: option.splits sum.splits list.splits)
qed

lemma no_empty_room_leave_room:
  assumes "no_empty_room (roomParticipants w)"
  shows "no_empty_room (roomParticipants (leave_room s roomId w))"
proof (cases "Map_get roomId (roomParticipants w)")
  case None
  then show ?thesis
    using assms by (simp add: leave_room_def emit_defs Let_def)
next
  case (Some ps)
  have "no_empty_room (Map_set roomId ps' (roomParticipants w))" if "ps' \<noteq> []" for ps'
    using assms that by (simp add: no_empty_room_Map_set)
  moreover have "no_empty_room (Map_delete roomId (Map_set roomId ps' (roomParticipants w)))" for ps'
    using assms by (rule no_empty_room_prune)
  ultimately show ?thesis
    using Some by (simp add: leave_room_def emit_defs Let_def)
qed

lemma no_empty_room_toggle:
  assumes "no_empty_room (roomParticipants w)"
  shows "no_empty_room (roomParticipants (toggle_audio s roomId b w))"
    and "no_empty_room (roomParticipants (toggle_video s roomId b w))"
  using assms
  by (auto simp add: toggle_audio_def toggle_video_def emit_defs Let_def no_empty_room_Map_set
      split: option.splits sum.splits)

lemma no_empty_room_chat_message:
  assumes "no_empty_room (roomParticipants w)"
  shows "no_empty_room (roomParticipants (chat_message s roomId message msgId isoTime w))"
  using assms by (simp add: chat_message_def emit_defs split: option.splits sum.splits)

lemma no_empty_room_host_mute:
  assumes "no_empty_room (roomParticipants w)"
  shows "no_empty_room (roomParticipants (host_mute_participant s roomId targetUserId w))"
  using assms
  by (auto simp add: host_mute_participant_def emit_defs Let_def no_empty_room_Map_set
      split: option.splits sum.splits)

lemma no_empty_room_disconnect_room:
  assumes "no_empty_room (roomParticipants w)"
  shows "no_empty_room (roomParticipants (disconnect_room s roomId w))"
proof (cases "Map_get roomId (roomParticipants w)")
  case None
  then show ?thesis
    using assms by (simp add: disconnect_room_def)
next
  case (Some ps)
  have "no_empty_room (Map_set roomId ps' (roomParticipants w))" if "ps' \<noteq> []" for ps'
    using assms that by (simp add: no_empty_room_Map_set)
  moreover have "no_empty_room (Map_delete roomId (Map_set roomId ps' (roomParticipants w)))" for ps'
    using assms by (rule no_empty_room_prune)
  ultimately show ?thesis
    using assms Some by (simp add: disconnect_room_def emit_defs Let_def)
qed

lemma no_empty_room_disconnect_each:
  "no_empty_room (roomParticipants w) \<Longrightarrow>
   no_empty_room (roomParticipants (disconnect_each s roomIds w))"
  by (induction roomIds arbitrary: w) (simp_all add: no_empty_room_disconnect_room)

lemma no_empty_room_disconnect:
  assumes "no_empty_room (roomParticipants w)"
  shows "no_empty_room (roomParticipants (disconnect s w))"
  using assms by (simp add: disconnect_def Let_def no_empty_room_disconnect_each)

text \<open>host-remove-participant keeps it as long as the target is not the last entry of the room.\<close>

lemma no_empty_room_host_remove:
  assumes "no_empty_room (roomParticipants w)"
    and "\<And>ps. Map_get roomId (roomParticipants w) = Some ps \<Longrightarrow> Map_delete targetUserId ps \<noteq> []"
  shows "no_empty_room (roomParticipants (host_remove_participant s roomId targetUserId now w))"
  using assms
  by (auto simp add: host_remove_participant_def emit_defs Let_def no_empty_room_Map_set
      split: option.splits sum.splits)

lemma no_empty_room_handle:
  assumes inv: "no_empty_room (roomParticipants w)"
    and other: "\<not> (\<exists>roomId targetUserId now. c = HostRemoveParticipant roomId targetUserId now)"
  shows "no_empty_room (roomParticipants (handle s c w))"
proof (cases c)
  case (HostRemoveParticipant roomId targetUserId now)
  with other show ?thesis by blast
qed (simp_all add: inv no_empty_room_join_room no_empty_room_leave_room
    no_empty_room_chat_message no_empty_room_toggle no_empty_room_host_mute
    no_empty_room_disconnect)

text \<open>The claim read as an equivalence: a key is present exactly when it has an entry.\<close>

lemma no_empty_room_iff:
  assumes "distinct (Map_keys reg)"
  shows "no_empty_room reg \<longleftrightarrow>
         (\<forall>roomId. Map_has roomId reg \<longleftrightarrow> (\<exists>uid. presence reg roomId uid \<noteq> None))"
proof
  assume inv: "no_empty_room reg"
  show "\<forall>roomId. Map_has roomId reg \<longleftrightarrow> (\<exists>uid. presence reg roomId uid \<noteq> None)"
  proof
    fix roomId
    show "Map_has roomId reg \<longleftrightarrow> (\<exists>uid. presence reg roomId uid \<noteq> None)"
    proof (cases "Map_get roomId reg")
      case None
      then show ?thesis by (simp add: presence_def)
    next
      case (Some ps)
      with inv have "ps \<noteq> []" by (rule no_empty_room_Map_get)
      then obtain u p rest where "ps = (u, p) # rest"
        by (cases ps) auto
      then have "presence reg roomId u \<noteq> None"
        using Some by (simp add: presence_def)
      then show ?thesis
        using Some by blast
    qed
  qed
next
  assume iff: "\<forall>roomId. Map_has roomId reg \<longleftrightarrow> (\<exists>uid. presence reg roomId uid \<noteq> None)"
  show "no_empty_room reg"
    unfolding no_empty_room_def list_all_iff
  proof
    fix e assume "e \<in> set reg"
    then have get: "Map_get (fst e) reg = Some (snd e)"
      using assms by simp
    then have "\<exists>uid. presence reg (fst e) uid \<noteq> None"
      using iff by blast
    then show "snd e \<noteq> []"
      using get by (auto simp add: presence_def)
  qed
qed

subsection \<open>host-remove-participant breaks it\<close>

text \<open>
  Claim C1: in every state reached by join-room, leave-room, disconnect and
  host-remove-participant commands, a room id is a key of the registry exactly when its
  collection holds an entry; the command that removes a room's last entry prunes the key.

  The host-remove-participant handler deletes the target's entry and stops there, without
  the "clean up empty rooms" step of leave-room and disconnect. After \<open>G\<close> joins \<open>R\<close> and the
  host \<open>H\<close>, who is not in the registry, removes \<open>G\<close>, the key \<open>R\<close> stays with an empty
  collection.
\<close>

theorem host_remove_leaves_empty_room:
  "roomParticipants
     (run [(guest_sock, JoinRoom ''R''), (host_sock, HostRemoveParticipant ''R'' ''G'' 5)] world0)
   = [(''R'', [])]
   \<and> \<not> no_empty_room
         (roomParticipants
            (run [(guest_sock, JoinRoom ''R''), (host_sock, HostRemoveParticipant ''R'' ''G'' 5)]
               world0))"
  by (simp add: no_empty_room_def handler_defs prisma_defs emit_defs deployment_defs Let_def)

section \<open>leave-room of a sender without an entry\<close>

text \<open>
  On a registry without an empty collection, a leave-room for a room in which the sender
  has no entry changes nothing in the registry, sends no error, and still tells the other
  connections of the room that the sender left.
\<close>

lemma remaining_after_leave:
  "filter (\<lambda>x. x \<noteq> a) (map fst (filter (\<lambda>p. snd p = r) (filter (\<lambda>p. p \<noteq> (a, r)) ad)))
     = filter (\<lambda>x. x \<noteq> a) (map fst (filter (\<lambda>p. snd p = r) ad))"
  by (induction ad) auto

lemma socket_leave_frame [simp]:
  "roomParticipants (socket_leave s roomId w) = roomParticipants w"
  "outbox (socket_leave s roomId w) = outbox w"
  by (simp_all add: socket_leave_def)

lemma members_after_leave:
  "filter (\<lambda>x. x \<noteq> sid s) (members roomId (socket_leave s roomId w))
     = filter (\<lambda>x. x \<noteq> sid s) (members roomId w)"
proof -
  have "adapter (socket_leave s roomId w) = filter (\<lambda>p. p \<noteq> (sid s, roomId)) (adapter w)"
    by (simp add: socket_leave_def)
  then show ?thesis
    unfolding members_def by (simp only: remaining_after_leave)
qed

lemma leave_room_absent:
  assumes absent: "presence (roomParticipants w) roomId (userId s) = None"
    and inv: "no_empty_room (roomParticipants w)"
  shows "roomParticipants (leave_room s roomId w) = roomParticipants w"
    and "outbox (leave_room s roomId w) = outbox w @
           [(ToOthers roomId (sid s), filter (\<lambda>x. x \<noteq> sid s) (members roomId w),
             ParticipantLeft (userId s) (userName s))]"
proof -
  show "roomParticipants (leave_room s roomId w) = roomParticipants w"
  proof (cases "Map_get roomId (roomParticipants w)")
    case None
    then show ?thesis
      by (simp add: leave_room_def socket_to_emit_def set_registry_def Let_def)
  next
    case (Some ps)
    have "Map_get (userId s) ps = None"
      using absent Some by (simp add: presence_def)
    then have same: "Map_delete (userId s) ps = ps"
      by (simp add: map_of_eq_None_iff)
    have "ps \<noteq> []"
      using inv Some by (rule no_empty_room_Map_get)
    then show ?thesis
      using Some same
      by (simp add: leave_room_def socket_to_emit_def set_registry_def Let_def update_triv)
  qed
  show "outbox (leave_room s roomId w) = outbox w @
           [(ToOthers roomId (sid s), filter (\<lambda>x. x \<noteq> sid s) (members roomId w),
             ParticipantLeft (userId s) (userName s))]"
    by (simp add: leave_room_def socket_to_emit_def set_registry_def Let_def members_after_leave)
qed

text \<open>
  The room named may be the private group of another connection: \<open>G\<close> names the id of the
  connection of \<open>H\<close>, and that connection is told that \<open>G\<close> left.
\<close>

lemma leave_room_private_group:
  "outbox (leave_room guest_sock ''c1'' world_live) =
     [(ToOthers ''c1'' ''c2'', [''c1''], ParticipantLeft ''G'' ''Gil'')]"
  by (simp add: leave_room_def emit_defs deployment_defs Let_def)

text \<open>
  Claim C10: a leave-room naming a room in which the sender has no entry (the room
  may be absent from the registry) sends no error to the sender, leaves the registry
  unchanged and still broadcasts participant-left with the sender's id and name to the
  remaining connections of the room.

  The empty collection that host-remove-participant leaves behind makes this fail: \<open>H\<close> has
  no entry in \<open>R\<close>, and its leave-room finds the collection of \<open>R\<close> empty and deletes the key.
\<close>

theorem leave_room_prunes_leaked_room:
  "roomParticipants
     (run [(guest_sock, JoinRoom ''R''), (host_sock, HostRemoveParticipant ''R'' ''G'' 5)] world0)
   = [(''R'', [])]
   \<and> presence [(''R'', [])] ''R'' (userId host_sock) = None
   \<and> roomParticipants
        (run [(guest_sock, JoinRoom ''R''), (host_sock, HostRemoveParticipant ''R'' ''G'' 5),
              (host_sock, LeaveRoom ''R'')] world0)
     = []"
  by (simp add: presence_def handler_defs prisma_defs emit_defs deployment_defs Let_def)

end
